theory Spec2Isabelle
  imports Main
begin

section \<open>Python values, exceptions and string formatting\<close>

text \<open>
  The values that flow through \<^verbatim>\<open>tmi.misc_utils\<close>: the hashable scalars are
  Python ints and strs; an argument of a checker is such a scalar or a list of them.
  A Python str is a \<^typ>\<open>string\<close>, one \<^typ>\<open>char\<close> for each character.
\<close>

datatype pyval = PInt int | PStr string

datatype pyobj = Scalar pyval | PList "pyval list"

text \<open>
  The exceptions the module can raise. \<open>ValueError\<close> carries its message and its
  \<^verbatim>\<open>__cause__\<close> (set by \<^verbatim>\<open>raise ... from e\<close>); \<open>UnboundLocalError\<close> carries
  the name of the local variable that was read before any assignment.
\<close>

datatype pyexc =
    ValueError string "pyexc option"
  | TypeError string
  | UnboundLocalError string
  | FileNotFoundError string

text \<open>\<^verbatim>\<open>str(n)\<close> for a natural number and for an int, in decimal.\<close>

fun digits :: "nat \<Rightarrow> string" where
  "digits n =
     (if n < 10 then [''0123456789'' ! n]
      else digits (n div 10) @ [''0123456789'' ! (n mod 10)])"

declare digits.simps [simp del]

definition str_int :: "int \<Rightarrow> string" where
  "str_int i = (if i < 0 then CHR ''-'' # digits (nat (- i)) else digits (nat i))"

fun py_str :: "pyval \<Rightarrow> string" where
  "py_str (PInt i) = str_int i"
| "py_str (PStr s) = s"

text \<open>
  The format specifications the module uses: \<^verbatim>\<open>{:<12}\<close> with fill \<^verbatim>\<open>" "\<close>
  (left-aligned: the text, then spaces up to the width) and \<^verbatim>\<open>{:>13}\<close>
  (right-aligned: spaces first). A text at least as long as the width is unchanged.
\<close>

definition ljust :: "nat \<Rightarrow> string \<Rightarrow> string" where
  "ljust width s = s @ replicate (width - length s) CHR '' ''"

definition rjust :: "nat \<Rightarrow> string \<Rightarrow> string" where
  "rjust width s = replicate (width - length s) CHR '' '' @ s"

section \<open>The invalid-data formatter\<close>

text \<open>
  \<^verbatim>\<open>"{idx:{fill}{align}{width}} {message}\n".format(idx=idx, message=data,
  fill=" ", align="<", width=12)\<close>: one line of the report.
\<close>

definition err_msg :: "nat \<Rightarrow> pyval \<Rightarrow> string" where
  "err_msg idx data = ljust 12 (digits idx) @ '' '' @ py_str data @ ''\<newline>''"

text \<open>
  The loop \<^verbatim>\<open>for idx, data in enumerate(invalid_data[:10], start=1)\<close>: the
  counter, the entries still to visit and the string accumulated so far.
\<close>

fun enumerate_loop :: "nat \<Rightarrow> pyval list \<Rightarrow> string \<Rightarrow> string" where
  "enumerate_loop idx [] err_str_data = err_str_data"
| "enumerate_loop idx (data # rest) err_str_data =
     enumerate_loop (idx + 1) rest (err_str_data @ err_msg idx data)"

definition create_invalid_data_str :: "pyval list \<Rightarrow> string" where
  "create_invalid_data_str invalid_data = enumerate_loop 1 (take 10 invalid_data) ''''"

section \<open>Named arguments, iteration and membership\<close>

text \<open>
  \<^verbatim>\<open>**kwargs\<close>: the named arguments in call order, each name with its value.
  A checker returns the lines it printed and either the exception it raised or
  \<open>()\<close> for a normal return.
\<close>

type_synonym kwargs = "(string \<times> pyobj) list"

type_synonym checked = "string list \<times> (pyexc + unit)"

text \<open>\<^verbatim>\<open>name.replace("_", " ")\<close>.\<close>

definition replace_underscores :: "string \<Rightarrow> string" where
  "replace_underscores name = map (\<lambda>c. if c = CHR ''_'' then CHR '' '' else c) name"

text \<open>
  Iterating an argument (\<^verbatim>\<open>for val in x\<close>, \<^verbatim>\<open>list(x)\<close>): a list gives its
  elements, a str its characters as one-character strs, an int raises \<open>TypeError\<close>.
\<close>

fun py_iter :: "pyobj \<Rightarrow> pyexc + pyval list" where
  "py_iter (PList vals) = Inr vals"
| "py_iter (Scalar (PStr s)) = Inr (map (\<lambda>c. PStr [c]) s)"
| "py_iter (Scalar (PInt i)) = Inl (TypeError (CHR 0x27 # ''int' object is not iterable''))"

text \<open>\<^verbatim>\<open>sub in s\<close> on two strs: \<open>sub\<close> occurs in \<open>s\<close> as a contiguous piece.\<close>

fun substring_in :: "string \<Rightarrow> string \<Rightarrow> bool" where
  "substring_in sub [] = (sub = [])"
| "substring_in sub (c # s) = (take (length sub) (c # s) = sub \<or> substring_in sub s)"

text \<open>
  \<^verbatim>\<open>val in container\<close>: membership in a list, the substring test in a str (which
  refuses an int on the left), and \<open>TypeError\<close> for an int container.
\<close>

fun py_in :: "pyval \<Rightarrow> pyobj \<Rightarrow> pyexc + bool" where
  "py_in val (PList vals) = Inr (val \<in> set vals)"
| "py_in (PStr sub) (Scalar (PStr s)) = Inr (substring_in sub s)"
| "py_in (PInt i) (Scalar (PStr s)) =
     Inl (TypeError (CHR 0x27 # ''in <string>' requires string as left operand, not int''))"
| "py_in val (Scalar (PInt i)) = Inl (TypeError ''argument of type 'int' is not iterable'')"

text \<open>
  Reading a local variable: a slot that no assignment has filled on the path taken
  raises \<open>UnboundLocalError\<close>.
\<close>

definition load_fast :: "string \<Rightarrow> 'a option \<Rightarrow> pyexc + 'a" where
  "load_fast name slot = (case slot of None \<Rightarrow> Inl (UnboundLocalError name) | Some v \<Rightarrow> Inr v)"

text \<open>
  \<^verbatim>\<open>np.isin(element, test_elements)\<close> of the numpy library, by its documented
  contract. Each argument first becomes an array of one element type
  (\<^verbatim>\<open>np.asarray\<close>; a scalar is an array of one element): when an argument holds
  a str, every int in it becomes its decimal string, and numpy's fixed-width strings
  drop NUL characters at the end. The result says for each entry of the first array
  whether it occurs in the second; \<^verbatim>\<open>.all()\<close> holds when no entry is false.

  Outside the model: ints beyond numpy's signed 64-bit range, and an array of ints
  compared with an array of strs. \<open>one_kind\<close> describes arguments on which no
  conversion happens at all: all strs, none ending in NUL, or all ints within the
  signed 64-bit range.
\<close>

fun values_of :: "pyobj \<Rightarrow> pyval list" where
  "values_of (Scalar v) = [v]"
| "values_of (PList vals) = vals"

fun is_str :: "pyval \<Rightarrow> bool" where
  "is_str (PStr s) = True"
| "is_str (PInt i) = False"

definition rstrip_nul :: "string \<Rightarrow> string" where
  "rstrip_nul s = rev (dropWhile (\<lambda>c. c = CHR 0x00) (rev s))"

fun np_unicode :: "pyval \<Rightarrow> pyval" where
  "np_unicode (PStr s) = PStr (rstrip_nul s)"
| "np_unicode (PInt i) = PStr (str_int i)"

definition np_asarray :: "pyobj \<Rightarrow> pyval list" where
  "np_asarray obj =
     (if list_ex is_str (values_of obj) then map np_unicode (values_of obj)
      else values_of obj)"

definition np_isin :: "pyobj \<Rightarrow> pyobj \<Rightarrow> bool list" where
  "np_isin element test_elements =
     map (\<lambda>x. x \<in> set (np_asarray test_elements)) (np_asarray element)"

definition np_all :: "bool list \<Rightarrow> bool" where
  "np_all bs = (False \<notin> set bs)"




section \<open>The membership checker\<close>

text \<open>
  \<^verbatim>\<open>[str(val) for val in test_list if val not in good_values]\<close> over the values
  that iteration yields, stopping at the first exception.
\<close>

fun difference_of :: "pyval list \<Rightarrow> pyobj \<Rightarrow> pyexc + string list" where
  "difference_of [] good_values = Inr []"
| "difference_of (val # rest) good_values =
     (case py_in val good_values of
        Inl e \<Rightarrow> Inl e
      | Inr found \<Rightarrow>
          (case difference_of rest good_values of
             Inl e \<Rightarrow> Inl e
           | Inr difference \<Rightarrow> Inr (if found then difference else py_str val # difference)))"

text \<open>
  The body of the \<^verbatim>\<open>if not np.isin(...).all()\<close> branch, which ends in
  \<^verbatim>\<open>raise\<close> on every path: the exception it raises. The branch also computes
  \<^verbatim>\<open>good_values_name\<close>, which no message of the branch uses.
\<close>

definition in_list_failure :: "string \<Rightarrow> pyobj \<Rightarrow> pyobj \<Rightarrow> pyexc" where
  "in_list_failure first_key test_list good_values =
     (let test_list_name = replace_underscores first_key in
      case py_iter test_list of
        Inl e \<Rightarrow> e
      | Inr vals \<Rightarrow>
          (case difference_of vals good_values of
             Inl e \<Rightarrow> e
           | Inr difference \<Rightarrow>
               ValueError
                 (''Displaying '' @ digits (min (length difference) 10) @ '' of ''
                    @ digits (length difference)
                    @ '' invalid value(s) provided for list '' @ test_list_name
                    @ ''.\<newline>''
                    @ create_invalid_data_str (map PStr difference))
                 None))"

text \<open>
  \<^verbatim>\<open>verify_in_list(**kwargs)\<close>. The names \<^verbatim>\<open>test_list_name\<close> and
  \<^verbatim>\<open>good_values_name\<close> are assigned only inside the failing branch, so the
  \<^verbatim>\<open>print\<close> after it reads slots that are still empty.
\<close>

definition verify_in_list :: "kwargs \<Rightarrow> checked" where
  "verify_in_list kwargs =
     (if length kwargs \<noteq> 2
      then ([], Inl (ValueError ''You must provide 2 arguments to verify_in_list'' None))
      else
        let test_list = snd (kwargs ! 0); good_values = snd (kwargs ! 1) in
        if \<not> np_all (np_isin test_list good_values)
        then ([], Inl (in_list_failure (fst (kwargs ! 0)) test_list good_values))
        else
          (case load_fast ''test_list_name'' None of
             Inl e \<Rightarrow> ([], Inl e)
           | Inr test_list_name \<Rightarrow>
               (case load_fast ''good_values_name'' None of
                  Inl e \<Rightarrow> ([], Inl e)
                | Inr good_values_name \<Rightarrow>
                    ([''All values in list '' @ test_list_name @ '' exist in list ''
                        @ good_values_name],
                     Inr ()))))"

section \<open>The set-equality checker\<close>

text \<open>
  A Python set is the list of its distinct elements: \<^verbatim>\<open>set(xs)\<close>, \<^verbatim>\<open>s - t\<close>
  and \<^verbatim>\<open>s ^ t\<close>. The order in which CPython iterates a set depends on the hashes
  of its elements, so it is a parameter \<open>set_iter\<close> of the checker: any function
  that lists the elements of a set, each once (\<open>iterates_sets\<close>).
  \<open>insertion_order\<close> is one such order.
\<close>

type_synonym pyset = "pyval list"

definition py_set :: "pyval list \<Rightarrow> pyset" where
  "py_set xs = remdups xs"

definition set_minus :: "pyset \<Rightarrow> pyset \<Rightarrow> pyset" where
  "set_minus s t = filter (\<lambda>x. x \<notin> set t) s"

definition set_xor :: "pyset \<Rightarrow> pyset \<Rightarrow> pyset" where
  "set_xor s t = set_minus s t @ set_minus t s"

definition iterates_sets :: "(pyset \<Rightarrow> pyval list) \<Rightarrow> bool" where
  "iterates_sets set_iter \<longleftrightarrow>
     (\<forall>s. distinct s \<longrightarrow> set (set_iter s) = set s \<and> length (set_iter s) = length s)"

definition insertion_order :: "pyset \<Rightarrow> pyval list" where
  "insertion_order s = s"

text \<open>
  The count line of one direction, as the source formats it:
  \<^verbatim>\<open>("{:>13} \n").format("Displaying {} of {} missing value(s) for list {}\n"
  .format(n_shown, n_total, name))\<close>.
\<close>

definition count_line :: "nat \<Rightarrow> nat \<Rightarrow> string \<Rightarrow> string" where
  "count_line n_shown n_total name =
     rjust 13 (''Displaying '' @ digits n_shown @ '' of '' @ digits n_total
                 @ '' missing value(s) for list '' @ name @ ''\<newline>'')
       @ '' \<newline>''"

text \<open>
  The body of the \<^verbatim>\<open>if not np.all(set(...) == set(...))\<close> branch: the message
  of the \<open>ValueError\<close> it raises. The first count line takes its total from
  \<^verbatim>\<open>len(missing_vals_2)\<close>, as the source does.
\<close>

definition same_elements_err_str ::
  "(pyset \<Rightarrow> pyval list) \<Rightarrow> string \<Rightarrow> string \<Rightarrow> pyval list \<Rightarrow> pyval list \<Rightarrow> string" where
  "same_elements_err_str set_iter first_key second_key list_one_cast list_two_cast =
     (let list_one_name = replace_underscores first_key;
          list_two_name = replace_underscores second_key;
          missing_vals_1 =
            map py_str (set_iter (set_minus (py_set list_one_cast) (py_set list_two_cast)));
          missing_vals_2 =
            map py_str (set_iter (set_minus (py_set list_two_cast) (py_set list_one_cast)));
          missing_vals_total =
            map py_str (set_iter (set_xor (py_set list_one_cast) (py_set list_two_cast)))
      in digits (length missing_vals_total) @ '' value(s) provided for list ''
           @ list_one_name @ '' and list '' @ list_two_name
           @ '' are not found in both lists.\<newline>''
           @ count_line (min (length missing_vals_1) 10) (length missing_vals_2) list_one_name
           @ create_invalid_data_str (map PStr missing_vals_1) @ ''\<newline>''
           @ count_line (min (length missing_vals_2) 10) (length missing_vals_2) list_two_name
           @ create_invalid_data_str (map PStr missing_vals_2) @ ''\<newline>'')"

text \<open>
  \<^verbatim>\<open>try: list(list_one); list(list_two) except TypeError as e: raise ValueError(...)
  from e\<close>: only a \<open>TypeError\<close> is caught and chained.
\<close>

fun cast_or_raise :: "pyexc + pyval list \<Rightarrow> pyexc + pyval list" where
  "cast_or_raise (Inl (TypeError m)) =
     Inl (ValueError ''Both arguments provided must be lists or list types''
            (Some (TypeError m)))"
| "cast_or_raise (Inl e) = Inl e"
| "cast_or_raise (Inr vals) = Inr vals"

text \<open>
  \<^verbatim>\<open>verify_same_elements(**kwargs)\<close>. As in the membership checker, the names
  \<^verbatim>\<open>list_one_name\<close> and \<^verbatim>\<open>list_two_name\<close> are assigned only inside the
  failing branch, and the \<^verbatim>\<open>print\<close> after it reads them.
\<close>

definition verify_same_elements :: "(pyset \<Rightarrow> pyval list) \<Rightarrow> kwargs \<Rightarrow> checked" where
  "verify_same_elements set_iter kwargs =
     (if length kwargs \<noteq> 2
      then ([], Inl (ValueError ''You must provide 2 arguments to verify_same_elements'' None))
      else
        let list_one = snd (kwargs ! 0); list_two = snd (kwargs ! 1) in
        case cast_or_raise (py_iter list_one) of
          Inl e \<Rightarrow> ([], Inl e)
        | Inr list_one_cast \<Rightarrow>
            (case cast_or_raise (py_iter list_two) of
               Inl e \<Rightarrow> ([], Inl e)
             | Inr list_two_cast \<Rightarrow>
                 if \<not> (set (py_set list_one_cast) = set (py_set list_two_cast))
                 then ([], Inl (ValueError
                                 (same_elements_err_str set_iter (fst (kwargs ! 0))
                                    (fst (kwargs ! 1)) list_one_cast list_two_cast)
                                 None))
                 else
                   (case load_fast ''list_one_name'' None of
                      Inl e \<Rightarrow> ([], Inl e)
                    | Inr list_one_name \<Rightarrow>
                        (case load_fast ''list_two_name'' None of
                           Inl e \<Rightarrow> ([], Inl e)
                         | Inr list_two_name \<Rightarrow>
                             ([''List '' @ list_one_name @ '' and list '' @ list_two_name
                                 @ '' contain the same elements''],
                              Inr ())))))"

section \<open>The figure save wrapper\<close>

text \<open>
  \<^verbatim>\<open>os.path.join(a, b)\<close> on POSIX paths: an absolute \<open>b\<close> replaces \<open>a\<close>,
  otherwise the two are joined by one separator.
\<close>

definition os_path_join :: "string \<Rightarrow> string \<Rightarrow> string" where
  "os_path_join a b =
     (if take 1 b = ''/'' then b
      else if a = [] \<or> last a = CHR ''/'' then a @ b
      else a @ ''/'' @ b)"

text \<open>
  The call \<^verbatim>\<open>plt.savefig(path, dpi=dpi)\<close> that the wrapper hands to the plotting
  library. What the library does with the path is outside the repository.
\<close>

datatype 'd plt_call = Savefig string 'd

text \<open>
  \<^verbatim>\<open>save_figure(save_dir, save_file, dpi)\<close> over the set of paths that exist
  (\<^verbatim>\<open>os.path.exists\<close>). The file name is a str or \<^verbatim>\<open>None\<close>.
\<close>

definition save_figure :: "string set \<Rightarrow> string \<Rightarrow> string option \<Rightarrow> 'd \<Rightarrow> pyexc + 'd plt_call" where
  "save_figure existing save_dir save_file dpi =
     (if save_dir \<notin> existing
      then Inl (FileNotFoundError (''save_dir '' @ save_dir @ '' does not exist''))
      else
        (case save_file of
           None \<Rightarrow> Inl (FileNotFoundError ''save_dir specified but no save_file specified'')
         | Some file \<Rightarrow> Inr (Savefig (os_path_join save_dir file) dpi)))"

section \<open>Properties of the formatter\<close>

lemma enumerate_loop_concat:
  "enumerate_loop idx xs acc =
     acc @ concat (map (\<lambda>i. err_msg (idx + i) (xs ! i)) [0..<length xs])"
proof (induction xs arbitrary: idx acc)
  case Nil
  show ?case by simp
next
  case (Cons x xs)
  have "[0..<length (x # xs)] = 0 # map Suc [0..<length xs]"
    by (simp add: upt_conv_Cons map_Suc_upt del: upt_Suc)
  then show ?case
    using Cons.IH [of "idx + 1" "acc @ err_msg idx x"]
    by (simp add: comp_def del: upt_Suc)
qed

lemma create_invalid_data_str_take:
  "create_invalid_data_str (take 10 xs) = create_invalid_data_str xs"
  by (simp add: create_invalid_data_str_def)

lemma create_invalid_data_str_Nil: "create_invalid_data_str [] = []"
  by (simp add: create_invalid_data_str_def)

text \<open>
  C5 as stated, with the index left-padded to width 12, fails: for the one entry
  \<open>a\<close> the line is the index \<open>1\<close>, then the padding, then the value, and not
  eleven spaces before the index.
\<close>

theorem create_invalid_data_str_not_left_padded:
  "create_invalid_data_str [PStr ''a''] = ''1            a\<newline>''
   \<and> create_invalid_data_str [PStr ''a''] \<noteq> ''           1 a\<newline>''"
  by (simp add: create_invalid_data_str_def err_msg_def ljust_def digits.simps eval_nat_numeral)

text \<open>
  C5, amended. For every list of values the formatter returns the concatenation, over
  the first \<open>min (length invalid_data) 10\<close> entries in order, of one line for each:
  the 1-based index left-aligned in a field of width 12 (the digits, then spaces up
  to the width), a space, the value's string form and a newline. Entries beyond the
  tenth do not change the result, and the empty list gives the empty string. The
  formatter is a function of its argument alone.
\<close>

theorem create_invalid_data_str_lines:
  "create_invalid_data_str invalid_data =
     concat (map (\<lambda>i. digits (i + 1) @ replicate (12 - length (digits (i + 1))) CHR '' ''
                        @ '' '' @ py_str (invalid_data ! i) @ ''\<newline>'')
               [0..<min (length invalid_data) 10])
   \<and> create_invalid_data_str invalid_data = create_invalid_data_str (take 10 invalid_data)
   \<and> create_invalid_data_str [] = ''''"
proof -
  have "create_invalid_data_str invalid_data =
          concat (map (\<lambda>i. err_msg (1 + i) (take 10 invalid_data ! i))
                    [0..<length (take 10 invalid_data)])"
    by (simp add: create_invalid_data_str_def enumerate_loop_concat)
  also have "\<dots> = concat (map (\<lambda>i. err_msg (i + 1) (invalid_data ! i))
                    [0..<min (length invalid_data) 10])"
    by (rule arg_cong [where f = concat]) (auto simp: min_def)
  finally have lines: "create_invalid_data_str invalid_data =
      concat (map (\<lambda>i. err_msg (i + 1) (invalid_data ! i)) [0..<min (length invalid_data) 10])" .
  have "create_invalid_data_str invalid_data =
     concat (map (\<lambda>i. digits (i + 1) @ replicate (12 - length (digits (i + 1))) CHR '' ''
                        @ '' '' @ py_str (invalid_data ! i) @ ''\<newline>'')
               [0..<min (length invalid_data) 10])"
    unfolding lines by (simp add: err_msg_def ljust_def)
  then show ?thesis
    using create_invalid_data_str_take [of invalid_data] create_invalid_data_str_Nil by simp
qed

text \<open>Eleven entries: ten lines, the last with the two-digit index.\<close>

lemma create_invalid_data_str_eleven:
  "create_invalid_data_str
     (map PStr [''a'', ''b'', ''c'', ''d'', ''e'', ''f'', ''g'', ''h'', ''i'', ''j'', ''k''])
     = ''1            a\<newline>2            b\<newline>3            c\<newline>4            d\<newline>5            e\<newline>6            f\<newline>7            g\<newline>8            h\<newline>9            i\<newline>10           j\<newline>''"
  by code_simp

section \<open>Properties of the membership test and the comprehension\<close>









lemma substring_in_char: "substring_in [c] s = (c \<in> set s)"
  by (induction s) auto

lemma py_in_char:
  "py_in (PStr [c]) (PList good) = Inr (PStr [c] \<in> set good)"
  "py_in (PStr [c]) (Scalar (PStr s)) = Inr (c \<in> set s)"
  by (simp_all add: substring_in_char)


lemma last_same_elements_err_str:
  "last (same_elements_err_str set_iter k1 k2 xs ys) = CHR 0x0A"
  by (simp add: same_elements_err_str_def Let_def)

section \<open>Usage errors\<close>

text \<open>
  C6. For every mapping of named arguments whose size is not two, the membership
  checker and the set-equality checker each raise their usage error, a \<open>ValueError\<close>
  saying that two arguments must be provided, whatever the arguments hold; nothing is
  printed and nothing is compared.
\<close>

theorem wrong_argument_count_is_usage_error:
  "length kwargs \<noteq> 2 \<Longrightarrow>
     verify_in_list kwargs =
       ([], Inl (ValueError ''You must provide 2 arguments to verify_in_list'' None))
     \<and> verify_same_elements set_iter kwargs =
       ([], Inl (ValueError ''You must provide 2 arguments to verify_same_elements'' None))"
  by (simp add: verify_in_list_def verify_same_elements_def)

text \<open>The call of the test suite with one named argument.\<close>

theorem wrong_argument_count_witness:
  "length [(''one'', PList [PStr ''not_enough''])] \<noteq> 2
   \<and> verify_in_list [(''one'', PList [PStr ''not_enough''])] =
       ([], Inl (ValueError ''You must provide 2 arguments to verify_in_list'' None))
   \<and> verify_same_elements insertion_order [(''one'', PList [PStr ''not_enough''])] =
       ([], Inl (ValueError ''You must provide 2 arguments to verify_same_elements'' None))"
  using wrong_argument_count_is_usage_error
          [of "[(''one'', PList [PStr ''not_enough''])]" insertion_order]
  by simp

text \<open>
  C7. For every pair of named inputs of which one is a bare integer, the set-equality
  checker raises the usage error \<open>ValueError\<close> "Both arguments provided must be lists
  or list types", whose cause is the \<open>TypeError\<close> of the failed conversion. Its
  message is not the message of any set-inequality error, which moreover has no cause;
  the comparison is never reached.
\<close>

theorem non_sequence_argument_is_usage_error:
  assumes "kwargs = [(k1, a), (k2, b)]"
    and "a = Scalar (PInt i) \<or> b = Scalar (PInt j)"
  shows "verify_same_elements set_iter kwargs =
           ([], Inl (ValueError ''Both arguments provided must be lists or list types''
                       (Some (TypeError (CHR 0x27 # ''int' object is not iterable'')))))
         \<and> ''Both arguments provided must be lists or list types''
             \<noteq> same_elements_err_str set_iter' k1' k2' xs ys"
proof -
  have "last ''Both arguments provided must be lists or list types'' \<noteq> CHR 0x0A"
    by simp
  then have other_message: "''Both arguments provided must be lists or list types''
             \<noteq> same_elements_err_str set_iter' k1' k2' xs ys"
    using last_same_elements_err_str [of set_iter' k1' k2' xs ys] by metis
  have "verify_same_elements set_iter kwargs =
           ([], Inl (ValueError ''Both arguments provided must be lists or list types''
                       (Some (TypeError (CHR 0x27 # ''int' object is not iterable'')))))"
    using assms by (cases a rule: py_iter.cases) (auto simp: verify_same_elements_def)
  with other_message show ?thesis by simp
qed

text \<open>The call of the test suite: \<^verbatim>\<open>verify_same_elements(one=1, two=2)\<close>.\<close>

theorem non_sequence_argument_witness:
  "[(''one'', Scalar (PInt 1)), (''two'', Scalar (PInt 2))]
     = [(''one'', Scalar (PInt 1)), (''two'', Scalar (PInt 2))]
   \<and> (Scalar (PInt 1) = Scalar (PInt 1) \<or> Scalar (PInt 2) = Scalar (PInt 2))
   \<and> verify_same_elements insertion_order [(''one'', Scalar (PInt 1)), (''two'', Scalar (PInt 2))] =
           ([], Inl (ValueError ''Both arguments provided must be lists or list types''
                       (Some (TypeError (CHR 0x27 # ''int' object is not iterable'')))))
   \<and> ''Both arguments provided must be lists or list types''
             \<noteq> same_elements_err_str insertion_order ''one'' ''two'' [PStr ''a''] [PStr ''b'']"
  using non_sequence_argument_is_usage_error
          [of "[(''one'', Scalar (PInt 1)), (''two'', Scalar (PInt 2))]"
              "''one''" "Scalar (PInt 1)" "''two''" "Scalar (PInt 2)" 1 2
              insertion_order insertion_order "''one''" "''two''" "[PStr ''a'']" "[PStr ''b'']"]
  by simp

section \<open>Failures of the membership checker\<close>






section \<open>Failures of the set-equality checker\<close>

lemma count_line_text:
  "count_line n m name =
     ''Displaying '' @ digits n @ '' of '' @ digits m @ '' missing value(s) for list ''
       @ name @ ''\<newline> \<newline>''"
  by (simp add: count_line_def rjust_def)

lemma distinct_set_minus: "distinct (set_minus (py_set xs) (py_set ys))"
  by (simp add: set_minus_def py_set_def)

lemma distinct_set_xor: "distinct (set_xor (py_set xs) (py_set ys))"
  by (auto simp: set_xor_def set_minus_def py_set_def)

lemma set_set_minus: "set (set_minus (py_set xs) (py_set ys)) = set xs - set ys"
  by (auto simp: set_minus_def py_set_def)

lemma length_set_minus: "length (set_minus (py_set xs) (py_set ys)) = card (set xs - set ys)"
  using distinct_card [OF distinct_set_minus [of xs ys]] by (simp add: set_set_minus)

lemma iterates_sets_length:
  "iterates_sets set_iter \<Longrightarrow> distinct s \<Longrightarrow> length (set_iter s) = length s"
  by (simp add: iterates_sets_def)

text \<open>
  C8. Whenever the set-equality checker fails on two inputs that convert to sequences
  with different sets of elements, the message of its \<open>ValueError\<close> is the header,
  then the section of the first direction, then the section of the second: each
  section is its count line, the formatter's block for the values missing in that
  direction and a newline. A direction with no missing value keeps its section: the
  count line is there and the block is the empty string. The counts are the ones the
  source computes.
\<close>

theorem verify_same_elements_both_directions:
  assumes "kwargs = [(k1, a), (k2, b)]"
    and "py_iter a = Inr A" and "py_iter b = Inr B"
    and "set A \<noteq> set B"
    and "iterates_sets set_iter"
  shows "let missing_vals_1 = map py_str (set_iter (set_minus (py_set A) (py_set B)));
             missing_vals_2 = map py_str (set_iter (set_minus (py_set B) (py_set A)))
         in verify_same_elements set_iter kwargs =
              ([], Inl (ValueError
                 (digits (length missing_vals_1 + length missing_vals_2)
                    @ '' value(s) provided for list '' @ replace_underscores k1
                    @ '' and list '' @ replace_underscores k2
                    @ '' are not found in both lists.\<newline>''
                    @ ''Displaying '' @ digits (min (length missing_vals_1) 10) @ '' of ''
                    @ digits (length missing_vals_2) @ '' missing value(s) for list ''
                    @ replace_underscores k1 @ ''\<newline> \<newline>''
                    @ create_invalid_data_str (map PStr missing_vals_1) @ ''\<newline>''
                    @ ''Displaying '' @ digits (min (length missing_vals_2) 10) @ '' of ''
                    @ digits (length missing_vals_2) @ '' missing value(s) for list ''
                    @ replace_underscores k2 @ ''\<newline> \<newline>''
                    @ create_invalid_data_str (map PStr missing_vals_2) @ ''\<newline>'')
                 None))
            \<and> (set A \<subseteq> set B \<longrightarrow>
                   missing_vals_1 = [] \<and> create_invalid_data_str (map PStr missing_vals_1) = '''')
            \<and> (set B \<subseteq> set A \<longrightarrow>
                   missing_vals_2 = [] \<and> create_invalid_data_str (map PStr missing_vals_2) = '''')"
proof -
  have total: "length (set_iter (set_xor (py_set A) (py_set B))) =
          length (set_iter (set_minus (py_set A) (py_set B)))
            + length (set_iter (set_minus (py_set B) (py_set A)))"
    using assms(5)
    by (simp add: iterates_sets_length distinct_set_xor distinct_set_minus)
       (simp add: set_xor_def)
  have empty_1: "set_iter (set_minus (py_set A) (py_set B)) = []" if "set A \<subseteq> set B"
    using that iterates_sets_length [OF assms(5) distinct_set_minus [of A B]]
    by (simp add: length_set_minus Diff_eq_empty_iff [THEN iffD2])
  have empty_2: "set_iter (set_minus (py_set B) (py_set A)) = []" if "set B \<subseteq> set A"
    using that iterates_sets_length [OF assms(5) distinct_set_minus [of B A]]
    by (simp add: length_set_minus Diff_eq_empty_iff [THEN iffD2])
  have raised: "verify_same_elements set_iter kwargs =
      ([], Inl (ValueError (same_elements_err_str set_iter k1 k2 A B) None))"
    using assms(1-4) by (simp add: verify_same_elements_def py_set_def)
  show ?thesis
    unfolding raised Let_def
    by (simp add: same_elements_err_str_def Let_def total count_line_text empty_1 empty_2
          create_invalid_data_str_Nil)
qed

text \<open>
  A call whose first direction is empty:
  \<^verbatim>\<open>verify_same_elements(one=["a"], two=["a", "b"])\<close>.
\<close>

theorem verify_same_elements_both_directions_witness:
  "[(''one'', PList [PStr ''a'']), (''two'', PList [PStr ''a'', PStr ''b''])]
     = [(''one'', PList [PStr ''a'']), (''two'', PList [PStr ''a'', PStr ''b''])]
   \<and> py_iter (PList [PStr ''a'']) = Inr [PStr ''a'']
   \<and> py_iter (PList [PStr ''a'', PStr ''b'']) = Inr [PStr ''a'', PStr ''b'']
   \<and> set [PStr ''a''] \<noteq> set [PStr ''a'', PStr ''b'']
   \<and> iterates_sets insertion_order
   \<and> set [PStr ''a''] \<subseteq> set [PStr ''a'', PStr ''b'']
   \<and> verify_same_elements insertion_order
         [(''one'', PList [PStr ''a'']), (''two'', PList [PStr ''a'', PStr ''b''])]
       = ([], Inl (ValueError
            ''1 value(s) provided for list one and list two are not found in both lists.\<newline>Displaying 0 of 1 missing value(s) for list one\<newline> \<newline>\<newline>Displaying 1 of 1 missing value(s) for list two\<newline> \<newline>1            b\<newline>\<newline>''
            None))"
proof -
  have differ: "set [PStr ''a''] \<noteq> set [PStr ''a'', PStr ''b'']"
    by auto
  have order: "iterates_sets insertion_order"
    by (simp add: iterates_sets_def insertion_order_def)
  show ?thesis
    using differ order
      verify_same_elements_both_directions
        [OF refl _ _ differ order, of "PList [PStr ''a'']" "PList [PStr ''a'', PStr ''b'']"
           "''one''" "''two''"]
    by (simp add: Let_def digits.simps create_invalid_data_str_def err_msg_def ljust_def
          eval_nat_numeral replace_underscores_def insertion_order_def set_minus_def py_set_def)
qed

text \<open>
  C4. Each direction's count line should read "Displaying N of M missing value(s) for
  list name" with \<open>M\<close> the number of values missing in that same direction. At
  \<^verbatim>\<open>verify_same_elements(one=["a", "b"], two=["b"])\<close> one value, \<open>a\<close>, is missing
  in the first direction and none in the second, and the first count line of the
  source reads "Displaying 1 of 0": its total is the length of the second direction's
  list.
\<close>

theorem verify_same_elements_first_total_taken_from_second:
  "verify_same_elements insertion_order
     [(''one'', PList [PStr ''a'', PStr ''b'']), (''two'', PList [PStr ''b''])]
     = ([], Inl (ValueError
          ''1 value(s) provided for list one and list two are not found in both lists.\<newline>Displaying 1 of 0 missing value(s) for list one\<newline> \<newline>1            a\<newline>\<newline>Displaying 0 of 0 missing value(s) for list two\<newline> \<newline>\<newline>''
          None))"
  by (simp add: verify_same_elements_def py_set_def same_elements_err_str_def Let_def
        set_minus_def set_xor_def insertion_order_def count_line_def rjust_def
        digits.simps create_invalid_data_str_def err_msg_def ljust_def eval_nat_numeral
        replace_underscores_def)

section \<open>The path past the failing branch\<close>

text \<open>
  Neither checker ever prints or returns normally: when the failing branch is not
  taken, the names that the confirmation needs were never assigned.
\<close>

lemma verify_in_list_never_returns:
  "fst (verify_in_list kwargs) = [] \<and> snd (verify_in_list kwargs) \<noteq> Inr ()"
  by (simp add: verify_in_list_def load_fast_def Let_def)

lemma verify_same_elements_never_returns:
  "fst (verify_same_elements set_iter kwargs) = []
   \<and> snd (verify_same_elements set_iter kwargs) \<noteq> Inr ()"
  by (simp add: verify_same_elements_def load_fast_def Let_def split: sum.splits)

text \<open>
  On two named arguments, the membership checker reaches that path whenever the
  membership test holds, and the set-equality checker whenever the two sets agree.
\<close>

lemma verify_in_list_all_found:
  "kwargs = [(k1, a), (k2, b)] \<Longrightarrow> np_all (np_isin a b) \<Longrightarrow>
     verify_in_list kwargs = ([], Inl (UnboundLocalError ''test_list_name''))"
  by (simp add: verify_in_list_def load_fast_def)

lemma verify_same_elements_equal_sets:
  "kwargs = [(k1, a), (k2, b)] \<Longrightarrow> py_iter a = Inr A \<Longrightarrow> py_iter b = Inr B \<Longrightarrow>
   set A = set B \<Longrightarrow>
     verify_same_elements set_iter kwargs = ([], Inl (UnboundLocalError ''list_one_name''))"
  by (simp add: verify_same_elements_def py_set_def load_fast_def)

text \<open>
  C2. When every element of the candidate is in the reference the membership checker
  should print its confirmation and return. At
  \<^verbatim>\<open>verify_in_list(one=["hello"], two=["hello", "goodbye"])\<close> the source prints
  nothing and raises \<open>UnboundLocalError\<close> for \<^verbatim>\<open>test_list_name\<close>.
\<close>

theorem verify_in_list_success_path_raises:
  "verify_in_list [(''one'', PList [PStr ''hello'']), (''two'', PList [PStr ''hello'', PStr ''goodbye''])]
     = ([], Inl (UnboundLocalError ''test_list_name''))"
  by (simp add: verify_in_list_def np_all_def np_isin_def np_asarray_def rstrip_nul_def
        load_fast_def)

text \<open>
  C1. When the two inputs have the same distinct elements the set-equality checker
  should print its confirmation and return. At
  \<^verbatim>\<open>verify_same_elements(one=["a", "b", "b"], two=["b", "a"])\<close> the source
  prints nothing and raises \<open>UnboundLocalError\<close> for \<^verbatim>\<open>list_one_name\<close>.
\<close>

theorem verify_same_elements_success_path_raises:
  "verify_same_elements insertion_order
     [(''one'', PList [PStr ''a'', PStr ''b'', PStr ''b'']), (''two'', PList [PStr ''b'', PStr ''a''])]
     = ([], Inl (UnboundLocalError ''list_one_name''))"
  by (simp add: verify_same_elements_def py_set_def load_fast_def insert_commute)

section \<open>The guards of the figure save wrapper\<close>

text \<open>
  C9 as stated fails: the wrapper does not reject an empty file name.
  With the directory \<open>out\<close> present and the file name \<open>''''\<close> it raises nothing
  and hands the path \<open>out/\<close> to \<^verbatim>\<open>plt.savefig\<close>.
\<close>

theorem save_figure_empty_file_name_accepted:
  "save_figure {''out''} ''out'' (Some '''') (300::nat) = Inr (Savefig ''out/'' 300)"
  by (simp add: save_figure_def os_path_join_def)

text \<open>
  C9, amended. The wrapper raises \<open>FileNotFoundError\<close> exactly when the target
  directory does not exist or the file name is \<^verbatim>\<open>None\<close>. When the directory
  exists and a file name is given, empty or not, it calls \<^verbatim>\<open>plt.savefig\<close> with
  the joined path and the resolution.
\<close>

theorem save_figure_rejects_exactly:
  "isl (save_figure existing save_dir save_file dpi) = (save_dir \<notin> existing \<or> save_file = None)
   \<and> (save_dir \<notin> existing \<longrightarrow>
        save_figure existing save_dir save_file dpi =
          Inl (FileNotFoundError (''save_dir '' @ save_dir @ '' does not exist'')))
   \<and> (save_dir \<in> existing \<longrightarrow>
        save_figure existing save_dir None dpi =
          Inl (FileNotFoundError ''save_dir specified but no save_file specified'')
        \<and> save_figure existing save_dir (Some file) dpi =
            Inr (Savefig (os_path_join save_dir file) dpi))"
  by (simp add: save_figure_def split: option.splits)

text \<open>An existing and a missing directory, with and without a file name.\<close>

theorem save_figure_rejects_exactly_witness:
  "isl (save_figure {''out''} ''out'' (Some ''plot.png'') (300::nat))
     = (''out'' \<notin> {''out''} \<or> Some ''plot.png'' = None)
   \<and> isl (save_figure {''out''} ''missing'' (Some ''plot.png'') (300::nat))
   \<and> ''out'' \<in> {''out''}
   \<and> save_figure {''out''} ''out'' None (300::nat) =
          Inl (FileNotFoundError ''save_dir specified but no save_file specified'')
   \<and> save_figure {''out''} ''out'' (Some ''plot.png'') (300::nat) =
          Inr (Savefig ''out/plot.png'' 300)"
  using save_figure_rejects_exactly [of "{''out''}" "''out''" "Some ''plot.png''" "300::nat" "''plot.png''"]
    save_figure_rejects_exactly [of "{''out''}" "''missing''" "Some ''plot.png''" "300::nat" "''plot.png''"]
  by (simp add: os_path_join_def)

end
